theory Spec2Isabelle
  imports Main
begin

section \<open>The credential-keyed client registry of \<open>proxy/dial.go\<close>\<close>

text \<open>
  The file \<open>proxy/dial.go\<close> keeps one package-level variable, \<open>dialClient\<close>: a map from
  credential strings to \<open>*Client\<close> together with an embedded \<open>sync.Mutex\<close>. Five functions
  work on it: \<open>Dial\<close>, \<open>Init\<close>, \<open>InitClient\<close>, \<open>InitDefault\<close> and \<open>InitFromJson\<close>.

  The embedding is sequential: one goroutine runs the functions one after the other.
  Each function takes the registry state and returns a result together with the new
  state. A Go run-time panic and a \<open>Lock\<close> that can never be granted are results of
  their own, so that every way a call can end is a branch of the model.
\<close>

subsection \<open>Data\<close>

text \<open>
  A Go \<open>error\<close> is observed here only through its \<open>Error()\<close> text: \<open>fmt.Errorf\<close>
  with the verb \<open>%v\<close> formats exactly that text into a new error value.
\<close>

datatype error = Err string

fun Error :: "error \<Rightarrow> string" where
  "Error (Err msg) = msg"

text \<open>
  The struct \<open>Client\<close> is declared in another file of the package; \<open>Init\<close> fills the four
  fields below. The certificate source, the connection set and the dialer are opaque
  here; \<open>Conns\<close> and \<open>Dialer\<close> may be \<open>nil\<close>, which is \<open>None\<close>.
\<close>

record ('certs, 'conns, 'dialer) Client =
  Port :: int
  Certs :: 'certs
  Conns :: "'conns option"
  Dialer :: "'dialer option"

text \<open>\<open>const port = 3307\<close>\<close>

definition port :: int where
  "port = 3307"

text \<open>
  What a call does to the mutex, to the map and to its collaborators, in program order.
  The history is a ghost field: no function reads it.
\<close>

datatype event =
    EvLock
  | EvUnlock
  | EvMake
  | EvRead string
  | EvWrite string
  | EvDefaultClient
  | EvJWTConfigFromJSON string
  | EvConfigClient
  | EvNewCertSource
  | EvClientDial string

text \<open>
  \<open>var dialClient struct { c map[string]*Client; sync.Mutex }\<close>.
  The map is \<open>nil\<close> (\<open>None\<close>) until some function allocates it. Every pointer the five
  functions store is the address of a fresh struct, so an entry is never a nil pointer
  and a stored pointer is modelled by the struct it points to.
\<close>

record ('certs, 'conns, 'dialer) dialClient =
  dc_c :: "(string \<rightharpoonup> ('certs, 'conns, 'dialer) Client) option"
  dc_locked :: bool
  history :: "event list"

text \<open>The state of a process that has not touched the registry yet.\<close>

definition fresh :: "('certs, 'conns, 'dialer) dialClient" where
  "fresh = \<lparr>dc_c = None, dc_locked = False, history = []\<rparr>"

text \<open>
  The collaborators the file calls and does not define: the two entry points of
  \<open>golang.org/x/oauth2/google\<close>, \<open>(*jwt.Config).Client\<close>, \<open>certs.NewCertSource\<close>,
  \<open>(*Client).Dial\<close> and \<open>context.Background()\<close>. They are parameters of every function.
\<close>

record ('ctx, 'auth, 'cfg, 'certs, 'conns, 'dialer, 'conn) collaborators =
  Background :: 'ctx
  DefaultClient :: "'ctx \<Rightarrow> string \<Rightarrow> error + 'auth"
  JWTConfigFromJSON :: "string \<Rightarrow> string \<Rightarrow> error + 'cfg"
  ConfigClient :: "'cfg \<Rightarrow> 'ctx \<Rightarrow> 'auth"
  NewCertSource :: "string \<Rightarrow> 'auth \<Rightarrow> bool \<Rightarrow> 'certs"
  ClientDial :: "('certs, 'conns, 'dialer) Client \<Rightarrow> string \<Rightarrow> error + 'conn"

definition sqlservice_admin_scope :: string where
  "sqlservice_admin_scope = ''https://www.googleapis.com/auth/sqlservice.admin''"

definition sql_api_base :: string where
  "sql_api_base = ''https://www.googleapis.com/sql/v1beta4/''"

subsection \<open>Results and sequencing\<close>

text \<open>
  A call returns a value, panics with the run-time's message, or blocks for ever in
  \<open>Lock\<close> (the mutex is not reentrant and nobody else runs).
\<close>

datatype 'a result = Ret 'a | Panic string | Blocked

definition ret :: "'a \<Rightarrow> 's \<Rightarrow> 'a result \<times> 's" where
  "ret a s = (Ret a, s)"

definition bind :: "('s \<Rightarrow> 'a result \<times> 's) \<Rightarrow> ('a \<Rightarrow> 's \<Rightarrow> 'b result \<times> 's) \<Rightarrow> 's \<Rightarrow> 'b result \<times> 's" where
  "bind m f s =
     (case m s of
        (Ret a, s') \<Rightarrow> f a s'
      | (Panic msg, s') \<Rightarrow> (Panic msg, s')
      | (Blocked, s') \<Rightarrow> (Blocked, s'))"

definition emit :: "event \<Rightarrow> ('certs, 'conns, 'dialer) dialClient \<Rightarrow> ('certs, 'conns, 'dialer) dialClient" where
  "emit e s = s\<lparr>history := history s @ [e]\<rparr>"

subsection \<open>The statements the five functions are made of\<close>

text \<open>\<open>dialClient.Lock()\<close>\<close>

definition mutex_Lock :: "('certs, 'conns, 'dialer) dialClient \<Rightarrow> unit result \<times> ('certs, 'conns, 'dialer) dialClient" where
  "mutex_Lock s =
     (if dc_locked s then (Blocked, s)
      else (Ret (), emit EvLock (s\<lparr>dc_locked := True\<rparr>)))"

text \<open>\<open>dialClient.Unlock()\<close>; unlocking a free mutex is a fatal run-time error.\<close>

definition mutex_Unlock :: "('certs, 'conns, 'dialer) dialClient \<Rightarrow> unit result \<times> ('certs, 'conns, 'dialer) dialClient" where
  "mutex_Unlock s =
     (if dc_locked s then (Ret (), emit EvUnlock (s\<lparr>dc_locked := False\<rparr>))
      else (Panic ''sync: unlock of unlocked mutex'', s))"

text \<open>\<open>if dialClient.c == nil { dialClient.c = make(map[string]*Client) }\<close>\<close>

definition make_if_nil :: "('certs, 'conns, 'dialer) dialClient \<Rightarrow> unit result \<times> ('certs, 'conns, 'dialer) dialClient" where
  "make_if_nil s =
     (case dc_c s of
        None \<Rightarrow> (Ret (), emit EvMake (s\<lparr>dc_c := Some Map.empty\<rparr>))
      | Some m \<Rightarrow> (Ret (), s))"

text \<open>
  The expression \<open>dialClient.c[k]\<close>: reading a nil map, or a key that is not there, gives
  the zero value, a nil pointer.
\<close>

definition lookup :: "string \<Rightarrow> ('certs, 'conns, 'dialer) dialClient \<Rightarrow> ('certs, 'conns, 'dialer) Client option" where
  "lookup k s = (case dc_c s of None \<Rightarrow> None | Some m \<Rightarrow> m k)"

definition map_index :: "string \<Rightarrow> ('certs, 'conns, 'dialer) dialClient
    \<Rightarrow> ('certs, 'conns, 'dialer) Client option result \<times> ('certs, 'conns, 'dialer) dialClient" where
  "map_index k s = (Ret (lookup k s), emit (EvRead k) s)"

text \<open>
  The statement \<open>dialClient.c[k] = v\<close>: Go panics on an assignment to an entry of a
  nil map.
\<close>

definition map_assign :: "string \<Rightarrow> ('certs, 'conns, 'dialer) Client \<Rightarrow> ('certs, 'conns, 'dialer) dialClient
    \<Rightarrow> unit result \<times> ('certs, 'conns, 'dialer) dialClient" where
  "map_assign k v s =
     (case dc_c s of
        None \<Rightarrow> (Panic ''assignment to entry in nil map'', s)
      | Some m \<Rightarrow> (Ret (), emit (EvWrite k) (s\<lparr>dc_c := Some (m(k \<mapsto> v))\<rparr>)))"

text \<open>A call of a collaborator: its value, and the event in the history.\<close>

definition call :: "event \<Rightarrow> 'a \<Rightarrow> ('certs, 'conns, 'dialer) dialClient \<Rightarrow> 'a result \<times> ('certs, 'conns, 'dialer) dialClient" where
  "call e v s = (Ret v, emit e s)"

subsection \<open>The five functions\<close>

text \<open>
  \<open>Init\<close>: lock; allocate the map if it is nil; evaluate the right-hand side, which
  calls \<open>certs.NewCertSource\<close>; store the new client; unlock.
\<close>

definition Init :: "('ctx, 'auth, 'cfg, 'certs, 'conns, 'dialer, 'conn) collaborators
    \<Rightarrow> 'auth \<Rightarrow> 'conns option \<Rightarrow> 'dialer option \<Rightarrow> string
    \<Rightarrow> ('certs, 'conns, 'dialer) dialClient \<Rightarrow> unit result \<times> ('certs, 'conns, 'dialer) dialClient" where
  "Init env auth connset dialer credential_json =
     bind mutex_Lock (\<lambda>_.
     bind make_if_nil (\<lambda>_.
     bind (call EvNewCertSource (NewCertSource env sql_api_base auth True)) (\<lambda>cs.
     bind (map_assign credential_json
             \<lparr>Port = port, Certs = cs, Conns = connset, Dialer = dialer\<rparr>) (\<lambda>_.
     mutex_Unlock))))"

text \<open>\<open>InitClient\<close>: lock; store the address of the copy of \<open>c\<close>; unlock.\<close>

definition InitClient :: "('certs, 'conns, 'dialer) Client \<Rightarrow> string
    \<Rightarrow> ('certs, 'conns, 'dialer) dialClient \<Rightarrow> unit result \<times> ('certs, 'conns, 'dialer) dialClient" where
  "InitClient c credential_json =
     bind mutex_Lock (\<lambda>_.
     bind (map_assign credential_json c) (\<lambda>_.
     mutex_Unlock))"

text \<open>
  \<open>InitDefault\<close>: ask for the application-default client; on an error return it,
  otherwise \<open>Init(cl, nil, nil, "")\<close> and return nil (\<open>None\<close>).
\<close>

definition InitDefault :: "('ctx, 'auth, 'cfg, 'certs, 'conns, 'dialer, 'conn) collaborators
    \<Rightarrow> 'ctx \<Rightarrow> ('certs, 'conns, 'dialer) dialClient \<Rightarrow> error option result \<times> ('certs, 'conns, 'dialer) dialClient" where
  "InitDefault env ctx =
     bind (call EvDefaultClient (DefaultClient env ctx sqlservice_admin_scope)) (\<lambda>r.
     case r of
       Inl err \<Rightarrow> ret (Some err)
     | Inr cl \<Rightarrow> bind (Init env cl None None []) (\<lambda>_. ret None))"

text \<open>
  \<open>InitFromJson\<close>: parse the credential; on an error return it, otherwise derive the
  client from the configuration, \<open>Init(client, nil, nil, credential_json)\<close> and return nil.
\<close>

definition InitFromJson :: "('ctx, 'auth, 'cfg, 'certs, 'conns, 'dialer, 'conn) collaborators
    \<Rightarrow> 'ctx \<Rightarrow> string \<Rightarrow> ('certs, 'conns, 'dialer) dialClient
    \<Rightarrow> error option result \<times> ('certs, 'conns, 'dialer) dialClient" where
  "InitFromJson env ctx credential_json =
     bind (call (EvJWTConfigFromJSON credential_json)
             (JWTConfigFromJSON env credential_json sqlservice_admin_scope)) (\<lambda>r.
     case r of
       Inl err \<Rightarrow> ret (Some err)
     | Inr cfg \<Rightarrow>
         bind (call EvConfigClient (ConfigClient env cfg ctx)) (\<lambda>client.
         bind (Init env client None None credential_json) (\<lambda>_. ret None)))"

text \<open>
  The last statement of \<open>Dial\<close>, \<open>return c.Dial(instance)\<close>. \<open>(*Client).Dial\<close> reads the
  fields of its receiver, so a nil \<open>c\<close> is a nil-pointer dereference.
\<close>

definition deref_Dial :: "('ctx, 'auth, 'cfg, 'certs, 'conns, 'dialer, 'conn) collaborators
    \<Rightarrow> ('certs, 'conns, 'dialer) Client option \<Rightarrow> string
    \<Rightarrow> ('certs, 'conns, 'dialer) dialClient \<Rightarrow> (error + 'conn) result \<times> ('certs, 'conns, 'dialer) dialClient" where
  "deref_Dial env c instance =
     (case c of
        None \<Rightarrow> (\<lambda>s. (Panic ''invalid memory address or nil pointer dereference'', s))
      | Some cl \<Rightarrow> call (EvClientDial instance) (ClientDial env cl instance))"

definition dial_wrap :: "error \<Rightarrow> error" where
  "dial_wrap err =
     Err (''default proxy initialization failed; consider calling proxy.Init explicitly: '' @ Error err)"

text \<open>
  \<open>Dial\<close>: lock, allocate the map if nil, read the entry, unlock. If the entry is nil,
  call \<open>InitFromJson\<close> with the background context: on an error return the wrapped
  error, otherwise lock, read the entry again, unlock. Then dial with what was read.
  The inner sum is \<open>Inl\<close> for the early \<open>return nil, fmt.Errorf(...)\<close>.
\<close>

definition Dial :: "('ctx, 'auth, 'cfg, 'certs, 'conns, 'dialer, 'conn) collaborators
    \<Rightarrow> string \<Rightarrow> string
    \<Rightarrow> ('certs, 'conns, 'dialer) dialClient \<Rightarrow> (error + 'conn) result \<times> ('certs, 'conns, 'dialer) dialClient" where
  "Dial env instance credential_json =
     bind mutex_Lock (\<lambda>_.
     bind make_if_nil (\<lambda>_.
     bind (map_index credential_json) (\<lambda>c.
     bind mutex_Unlock (\<lambda>_.
     bind (case c of
             Some cl \<Rightarrow> ret (Inr c)
           | None \<Rightarrow>
               bind (InitFromJson env (Background env) credential_json) (\<lambda>r.
               case r of
                 Some err \<Rightarrow> ret (Inl (dial_wrap err))
               | None \<Rightarrow>
                   bind mutex_Lock (\<lambda>_.
                   bind (map_index credential_json) (\<lambda>c'.
                   bind mutex_Unlock (\<lambda>_.
                   ret (Inr c')))))) (\<lambda>r.
     case r of
       Inl err \<Rightarrow> ret (Inl err)
     | Inr c \<Rightarrow> deref_Dial env c instance)))))"

subsection \<open>Calls and runs\<close>

text \<open>
  The five exported functions as requests, so that a statement can range over all of
  them. \<open>exec\<close> runs one request and keeps only whether an error was returned; \<open>run\<close>
  runs a list of them, each with the collaborators as they behave at that moment.
  After a panic the mutex is still held (no function defers its \<open>Unlock\<close>), so in a
  process that recovers and goes on, every later call that locks blocks.
\<close>

datatype ('ctx, 'auth, 'certs, 'conns, 'dialer) request =
    ReqDial string string
  | ReqInit 'auth "'conns option" "'dialer option" string
  | ReqInitClient "('certs, 'conns, 'dialer) Client" string
  | ReqInitDefault 'ctx
  | ReqInitFromJson 'ctx string

fun exec :: "('ctx, 'auth, 'cfg, 'certs, 'conns, 'dialer, 'conn) collaborators
    \<Rightarrow> ('ctx, 'auth, 'certs, 'conns, 'dialer) request
    \<Rightarrow> ('certs, 'conns, 'dialer) dialClient \<Rightarrow> error option result \<times> ('certs, 'conns, 'dialer) dialClient" where
  "exec env (ReqDial instance k) =
     bind (Dial env instance k) (\<lambda>r. ret (case r of Inl err \<Rightarrow> Some err | Inr conn \<Rightarrow> None))"
| "exec env (ReqInit auth connset dialer k) = bind (Init env auth connset dialer k) (\<lambda>_. ret None)"
| "exec env (ReqInitClient c k) = bind (InitClient c k) (\<lambda>_. ret None)"
| "exec env (ReqInitDefault ctx) = InitDefault env ctx"
| "exec env (ReqInitFromJson ctx k) = InitFromJson env ctx k"

fun run :: "(('ctx, 'auth, 'cfg, 'certs, 'conns, 'dialer, 'conn) collaborators
      \<times> ('ctx, 'auth, 'certs, 'conns, 'dialer) request) list
    \<Rightarrow> ('certs, 'conns, 'dialer) dialClient \<Rightarrow> ('certs, 'conns, 'dialer) dialClient" where
  "run [] s = s"
| "run ((env, r) # rs) s = run rs (snd (exec env r s))"

subsection \<open>Notions the properties are stated with\<close>

text \<open>The map as a reader sees it: a nil map has no entries.\<close>

definition entries :: "('certs, 'conns, 'dialer) dialClient \<Rightarrow> (string \<rightharpoonup> ('certs, 'conns, 'dialer) Client)" where
  "entries s = (case dc_c s of None \<Rightarrow> Map.empty | Some m \<Rightarrow> m)"

text \<open>The events between an earlier state and a later one.\<close>

definition emitted :: "('certs, 'conns, 'dialer) dialClient \<Rightarrow> ('certs, 'conns, 'dialer) dialClient \<Rightarrow> event list" where
  "emitted s s' = drop (length (history s)) (history s')"

text \<open>The client \<open>Init\<close> is to build from its arguments.\<close>

definition built :: "('ctx, 'auth, 'cfg, 'certs, 'conns, 'dialer, 'conn) collaborators
    \<Rightarrow> 'auth \<Rightarrow> 'conns option \<Rightarrow> 'dialer option \<Rightarrow> ('certs, 'conns, 'dialer) Client" where
  "built env auth connset dialer =
     \<lparr>Port = 3307, Certs = NewCertSource env ''https://www.googleapis.com/sql/v1beta4/'' auth True,
      Conns = connset, Dialer = dialer\<rparr>"

text \<open>
  The key and the client an initialisation request is to install, when its identity
  exchange (if it has one) succeeds.
\<close>

fun installs :: "('ctx, 'auth, 'cfg, 'certs, 'conns, 'dialer, 'conn) collaborators
    \<Rightarrow> ('ctx, 'auth, 'certs, 'conns, 'dialer) request
    \<Rightarrow> (string \<times> ('certs, 'conns, 'dialer) Client) option" where
  "installs env (ReqDial instance k) = None"
| "installs env (ReqInit auth connset dialer k) = Some (k, built env auth connset dialer)"
| "installs env (ReqInitClient c k) = Some (k, c)"
| "installs env (ReqInitDefault ctx) =
     (case DefaultClient env ctx sqlservice_admin_scope of
        Inl err \<Rightarrow> None
      | Inr cl \<Rightarrow> Some ([], built env cl None None))"
| "installs env (ReqInitFromJson ctx k) =
     (case JWTConfigFromJSON env k sqlservice_admin_scope of
        Inl err \<Rightarrow> None
      | Inr cfg \<Rightarrow> Some (k, built env (ConfigClient env cfg ctx) None None))"

text \<open>
  The critical sections of a history: the events after each \<open>EvLock\<close> up to the next
  \<open>EvUnlock\<close> (or to the end, when the mutex is never released).
\<close>

fun sections :: "event list option \<Rightarrow> event list \<Rightarrow> event list list" where
  "sections None [] = []"
| "sections (Some cur) [] = [cur]"
| "sections None (EvLock # es) = sections (Some []) es"
| "sections None (e # es) = sections None es"
| "sections (Some cur) (EvUnlock # es) = cur # sections None es"
| "sections (Some cur) (e # es) = sections (Some (cur @ [e])) es"

fun map_access :: "event \<Rightarrow> bool" where
  "map_access (EvRead k) = True"
| "map_access (EvWrite k) = True"
| "map_access e = False"

text \<open>
  What may happen while the mutex is held: the allocation of the map and accesses to it;
  the flag says whether the construction of a certificate source may, too. Identity
  exchange and the client's own dial may not.
\<close>

fun under_lock :: "bool \<Rightarrow> event \<Rightarrow> bool" where
  "under_lock certs EvMake = True"
| "under_lock certs (EvRead k) = True"
| "under_lock certs (EvWrite k) = True"
| "under_lock certs EvNewCertSource = certs"
| "under_lock certs e = False"

definition section_ok :: "bool \<Rightarrow> event list \<Rightarrow> bool" where
  "section_ok certs sec \<longleftrightarrow>
     list_all (under_lock certs) sec \<and> length (filter map_access sec) = 1"

definition lock_scope_ok :: "bool \<Rightarrow> event list \<Rightarrow> bool" where
  "lock_scope_ok certs es \<longleftrightarrow> list_all (section_ok certs) (sections None es)"

subsection \<open>Stub collaborators for concrete runs\<close>

text \<open>
  An identity provider whose ambient exchange succeeds and whose parser accepts a
  credential that starts with an opening brace, and rejects the empty credential as
  \<open>encoding/json\<close> does; a certificate source that records how it was built; a client
  dial that fails for the instance \<open>down\<close>.
\<close>

type_synonym stub_Client = "(string \<times> string \<times> bool, nat, nat) Client"

type_synonym stub_state = "(string \<times> string \<times> bool, nat, nat) dialClient"

definition stubs :: "(unit, string, string, string \<times> string \<times> bool, nat, nat, string) collaborators" where
  "stubs =
     \<lparr>Background = (),
      DefaultClient = (\<lambda>ctx scope. Inr ''adc''),
      JWTConfigFromJSON = (\<lambda>data scope.
        case data of
          [] \<Rightarrow> Inl (Err ''unexpected end of JSON input'')
        | ch # rest \<Rightarrow> if ch = CHR ''{'' then Inr data else Inl (Err ''invalid character'')),
      ConfigClient = (\<lambda>cfg ctx. cfg),
      NewCertSource = (\<lambda>url auth secure. (url, auth, secure)),
      ClientDial = (\<lambda>cl instance. if instance = ''down'' then Inl (Err ''refused'') else Inr instance)\<rparr>"

text \<open>The same provider once it accepts every credential.\<close>

definition stubs_lenient :: "(unit, string, string, string \<times> string \<times> bool, nat, nat, string) collaborators" where
  "stubs_lenient = stubs\<lparr>JWTConfigFromJSON := (\<lambda>data scope. Inr data)\<rparr>"

text \<open>A client a caller made by hand, and a registry that holds it under \<open>k1\<close>.\<close>

definition custom :: stub_Client where
  "custom = \<lparr>Port = 5432, Certs = (''local'', ''none'', False), Conns = Some 7, Dialer = None\<rparr>"

definition allocated :: stub_state where
  "allocated = \<lparr>dc_c = Some Map.empty, dc_locked = False, history = []\<rparr>"

section \<open>Basic facts\<close>

lemmas stmt_defs =
  ret_def bind_def emit_def mutex_Lock_def mutex_Unlock_def make_if_nil_def
  lookup_def map_index_def map_assign_def call_def

lemmas func_defs =
  Init_def InitClient_def InitDefault_def InitFromJson_def deref_Dial_def Dial_def

lemma lookup_entries: "lookup k s = entries s k"
  by (simp add: lookup_def entries_def split: option.splits)

lemma upd_exI: "\<exists>k v. m(a \<mapsto> b) = m(k \<mapsto> v)"
  by blast

text \<open>A call only appends to the history.\<close>

lemma exec_history: "\<exists>es. history (snd (exec env r s)) = history s @ es"
  by (cases r) (auto simp: func_defs stmt_defs split: option.splits sum.splits)

lemma run_history: "\<exists>es. history (run rs s) = history s @ es"
proof (induction rs arbitrary: s)
  case Nil
  show ?case by simp
next
  case (Cons a rs)
  obtain env r where a: "a = (env, r)" by (cases a)
  obtain es1 where e1: "history (snd (exec env r s)) = history s @ es1"
    using exec_history by blast
  obtain es2 where e2: "history (run rs (snd (exec env r s))) = history (snd (exec env r s)) @ es2"
    using Cons.IH by blast
  show ?case using a e1 e2 by simp
qed

lemma emitted_trans:
  assumes "history s1 = history s @ es1" and "history s2 = history s1 @ es2"
  shows "emitted s s2 = emitted s s1 @ emitted s1 s2"
  using assms by (simp add: emitted_def)

text \<open>A call changes the entries of the map by at most one assignment.\<close>

lemma exec_entries:
  "entries (snd (exec env r s)) = entries s \<or>
   (\<exists>k v. entries (snd (exec env r s)) = (entries s)(k \<mapsto> v))"
  by (cases r)
     (simp_all add: func_defs stmt_defs entries_def upd_exI split: option.splits sum.splits if_splits)

lemma exec_dom: "dom (entries s) \<subseteq> dom (entries (snd (exec env r s)))"
  using exec_entries [of env r s] by auto

lemma run_dom: "dom (entries s) \<subseteq> dom (entries (run rs s))"
proof (induction rs arbitrary: s)
  case Nil
  show ?case by simp
next
  case (Cons a rs)
  obtain env r where a: "a = (env, r)" by (cases a)
  have "dom (entries s) \<subseteq> dom (entries (snd (exec env r s)))"
    by (rule exec_dom)
  also have "\<dots> \<subseteq> dom (entries (run rs (snd (exec env r s))))"
    by (rule Cons.IH)
  finally show ?case using a by simp
qed

text \<open>An entry that is there stays, and changes only where the history shows a write.\<close>

lemma exec_keeps:
  "lookup k s = Some cl \<Longrightarrow>
   \<exists>cl'. lookup k (snd (exec env r s)) = Some cl' \<and>
     (EvWrite k \<notin> set (emitted s (snd (exec env r s))) \<longrightarrow> cl' = cl)"
  by (cases r)
     (auto simp: func_defs stmt_defs emitted_def split: option.splits sum.splits if_splits)

lemma run_keeps:
  "lookup k s = Some cl \<Longrightarrow>
   \<exists>cl'. lookup k (run rs s) = Some cl' \<and>
     (EvWrite k \<notin> set (emitted s (run rs s)) \<longrightarrow> cl' = cl)"
proof (induction rs arbitrary: s cl)
  case Nil
  then show ?case by simp
next
  case (Cons a rs)
  obtain env r where a: "a = (env, r)" by (cases a)
  let ?s1 = "snd (exec env r s)"
  obtain c1 where c1: "lookup k ?s1 = Some c1"
    and same1: "EvWrite k \<notin> set (emitted s ?s1) \<longrightarrow> c1 = cl"
    using exec_keeps [OF Cons.prems] by blast
  obtain c2 where c2: "lookup k (run rs ?s1) = Some c2"
    and same2: "EvWrite k \<notin> set (emitted ?s1 (run rs ?s1)) \<longrightarrow> c2 = c1"
    using Cons.IH [OF c1] by blast
  obtain es1 where h1: "history ?s1 = history s @ es1"
    using exec_history by blast
  obtain es2 where h2: "history (run rs ?s1) = history ?s1 @ es2"
    using run_history by blast
  have "emitted s (run rs ?s1) = emitted s ?s1 @ emitted ?s1 (run rs ?s1)"
    using emitted_trans [OF h1 h2] .
  then show ?case using a c2 same1 same2 by auto
qed

lemma exec_installs:
  "installs env r = Some (k, cl) \<Longrightarrow> fst (exec env r s) = Ret None \<Longrightarrow>
   lookup k (snd (exec env r s)) = Some cl"
  by (cases r)
     (auto simp: func_defs stmt_defs built_def port_def sql_api_base_def
           split: option.splits sum.splits if_splits)

text \<open>
  The mutex is found held at the start of a call only after \<open>InitClient\<close> has panicked
  on the nil map and the process went on: in every state a run reaches from the fresh
  one, a held mutex goes with a nil map. So wherever a key is installed the mutex is
  free, and the hypothesis \<open>\<not> dc_locked s\<close> of the statements below excludes no state
  in which the registry holds anything.
\<close>

lemma exec_locked_nil:
  "(dc_locked s \<longrightarrow> dc_c s = None) \<Longrightarrow>
   dc_locked (snd (exec env r s)) \<longrightarrow> dc_c (snd (exec env r s)) = None"
  by (cases r) (auto simp: func_defs stmt_defs split: option.splits sum.splits if_splits)

lemma run_locked_nil:
  "(dc_locked s \<longrightarrow> dc_c s = None) \<Longrightarrow> dc_locked (run rs s) \<longrightarrow> dc_c (run rs s) = None"
proof (induction rs arbitrary: s)
  case Nil
  then show ?case by simp
next
  case (Cons a rs)
  obtain env r where a: "a = (env, r)" by (cases a)
  show ?case using a Cons.IH [OF exec_locked_nil [OF Cons.prems, of env r]] by simp
qed

lemma installed_unlocked: "lookup k (run rs fresh) = Some cl \<Longrightarrow> \<not> dc_locked (run rs fresh)"
  using run_locked_nil [of fresh rs] by (auto simp: fresh_def lookup_def)

text \<open>With the mutex free, \<open>Dial\<close> returns: it neither panics nor blocks.\<close>

lemma Dial_returns: "\<not> dc_locked s \<Longrightarrow> \<exists>r. fst (Dial env i k s) = Ret r"
  by (auto simp: func_defs stmt_defs split: option.splits sum.splits if_splits)


section \<open>The claims\<close>

subsection \<open>C1: which exchange \<open>Dial\<close> uses for the empty credential\<close>

text \<open>
  C1 says that \<open>Dial(instance, "")\<close> takes the ambient-identity path (\<open>InitDefault\<close>) and
  installs the result under the empty key, and that a non-empty credential takes the
  explicit path. The doc comment of \<open>Dial\<close> promises the same (\<open>InitDefault is called\<close>).
  The body calls \<open>InitFromJson\<close> for every credential, the empty one too: on a fresh
  registry, with a provider whose ambient exchange would succeed, \<open>Dial\<close> hands the empty
  credential to the JSON parser, returns the wrapped parse error, never asks for the
  default client and installs nothing, while \<open>InitDefault\<close> itself would have installed a
  client under the empty key. The last conjunct: no call of \<open>Dial\<close>, whatever its
  arguments and the state, asks for the default client.
\<close>

theorem Dial_empty_credential_skips_InitDefault:
  "fst (Dial stubs ''proj:region:inst'' [] fresh) =
     Ret (Inl (Err (''default proxy initialization failed; consider calling proxy.Init explicitly: ''
                    @ ''unexpected end of JSON input''))) \<and>
   lookup [] (snd (Dial stubs ''proj:region:inst'' [] fresh)) = None \<and>
   history (snd (Dial stubs ''proj:region:inst'' [] fresh)) =
     [EvLock, EvMake, EvRead [], EvUnlock, EvJWTConfigFromJSON []] \<and>
   fst (InitDefault stubs () fresh) = Ret None \<and>
   lookup [] (snd (InitDefault stubs () fresh)) = Some (built stubs ''adc'' None None) \<and>
   EvDefaultClient \<notin> set (emitted s (snd (Dial env i k s)))"
proof -
  have "EvDefaultClient \<notin> set (emitted s (snd (Dial env i k s)))"
    by (auto simp: func_defs stmt_defs emitted_def split: option.splits sum.splits if_splits)
  then show ?thesis
    by (simp add: func_defs stmt_defs fresh_def built_def port_def sql_api_base_def stubs_def
          dial_wrap_def)
qed

subsection \<open>C2: \<open>InitClient\<close> as the first call\<close>

text \<open>
  C2 says that \<open>InitClient\<close> installs the client under the key for every key and client,
  allocating the map when it is the first registry operation, and cannot fail.
  \<open>Init\<close> and \<open>Dial\<close> test the map for nil and allocate it; \<open>InitClient\<close> does not. On a
  fresh registry its assignment panics, nothing is installed, and the mutex stays held.
  \<open>Init\<close> with the same key on the same registry returns and installs.
\<close>

theorem InitClient_first_call_panics:
  "fst (InitClient c k fresh) = Panic ''assignment to entry in nil map'' \<and>
   lookup k (snd (InitClient c k fresh)) = None \<and>
   dc_c (snd (InitClient c k fresh)) = None \<and>
   dc_locked (snd (InitClient c k fresh)) \<and>
   fst (Init env auth connset dialer k fresh) = Ret () \<and>
   lookup k (snd (Init env auth connset dialer k fresh)) = Some (built env auth connset dialer)"
  by (simp add: func_defs stmt_defs fresh_def built_def port_def sql_api_base_def)

subsection \<open>C3: what happens while the mutex is held\<close>

text \<open>
  C3 as stated: in every operation the mutex is held only for the allocation of the
  map and a single insert or read, and never across a collaborator call; identity
  exchange and certificate-source construction happen outside of it. That is
  \<open>lock_scope_ok False\<close> of the events of a call. It fails for \<open>Init\<close>, which evaluates
  \<open>certs.NewCertSource(...)\<close> between \<open>Lock\<close> and \<open>Unlock\<close>.
\<close>

theorem Init_builds_certs_under_lock:
  "fst (exec stubs (ReqInit ''adc'' None None ''k1'') fresh) = Ret None \<and>
   emitted fresh (snd (exec stubs (ReqInit ''adc'' None None ''k1'') fresh)) =
     [EvLock, EvMake, EvNewCertSource, EvWrite ''k1'', EvUnlock] \<and>
   \<not> lock_scope_ok False (emitted fresh (snd (exec stubs (ReqInit ''adc'' None None ''k1'') fresh)))"
  by (simp add: func_defs stmt_defs fresh_def emitted_def lock_scope_ok_def section_ok_def)

text \<open>
  C3 as amended: in every call that returns, each critical section holds exactly one
  insert or read of the map and, besides it, only the allocation of the map and (in
  \<open>Init\<close>) the construction of the certificate source; identity exchange and the
  client's own dial happen outside the mutex, and the call leaves the mutex as it
  found it.
\<close>

theorem calls_hold_lock_briefly:
  assumes "fst (exec env r s) = Ret x"
  shows "lock_scope_ok True (emitted s (snd (exec env r s))) \<and>
         dc_locked (snd (exec env r s)) = dc_locked s"
  using assms
  by (cases r)
     (auto simp: func_defs stmt_defs emitted_def lock_scope_ok_def section_ok_def
           split: option.splits sum.splits if_splits)

theorem calls_hold_lock_briefly_witness:
  "fst (exec stubs (ReqDial ''proj:region:inst'' ''{a}'') fresh) = Ret None \<and>
   lock_scope_ok True (emitted fresh (snd (exec stubs (ReqDial ''proj:region:inst'' ''{a}'') fresh))) \<and>
   sections None (emitted fresh (snd (exec stubs (ReqDial ''proj:region:inst'' ''{a}'') fresh))) =
     [[EvMake, EvRead ''{a}''], [EvNewCertSource, EvWrite ''{a}''], [EvRead ''{a}'']]"
proof -
  have r: "fst (exec stubs (ReqDial ''proj:region:inst'' ''{a}'') fresh) = Ret None"
    by (simp add: func_defs stmt_defs fresh_def stubs_def)
  have "sections None (emitted fresh (snd (exec stubs (ReqDial ''proj:region:inst'' ''{a}'') fresh))) =
     [[EvMake, EvRead ''{a}''], [EvNewCertSource, EvWrite ''{a}''], [EvRead ''{a}'']]"
    by (simp add: func_defs stmt_defs fresh_def stubs_def emitted_def)
  then show ?thesis using r calls_hold_lock_briefly [OF r] by simp
qed

subsection \<open>C4: an installed key stays installed\<close>

text \<open>
  C4: for every key \<open>k\<close>, after a successful \<open>InitClient\<close>, \<open>Init\<close>, \<open>InitDefault\<close> or
  \<open>InitFromJson\<close> for \<open>k\<close> (for \<open>InitDefault\<close> the key is the empty one), a lookup of \<open>k\<close>
  returns the installed client, and after any further calls it returns that client or
  one a later call wrote under \<open>k\<close>; it never returns not-found again.
\<close>

theorem installed_key_stays:
  assumes "installs env r = Some (k, cl)" and "fst (exec env r s) = Ret None"
  shows "lookup k (snd (exec env r s)) = Some cl \<and>
         (\<exists>cl'. lookup k (run rs (snd (exec env r s))) = Some cl' \<and>
            (cl' = cl \<or>
             EvWrite k \<in> set (emitted (snd (exec env r s)) (run rs (snd (exec env r s))))))"
proof -
  have inst: "lookup k (snd (exec env r s)) = Some cl"
    using exec_installs [OF assms] .
  from run_keeps [OF inst, of rs] show ?thesis using inst by blast
qed

theorem installed_key_stays_witness:
  "installs stubs (ReqInit ''adc'' None None ''k1'') = Some (''k1'', built stubs ''adc'' None None) \<and>
   fst (exec stubs (ReqInit ''adc'' None None ''k1'') fresh) = Ret None \<and>
   EvWrite ''k1'' \<notin> set (emitted (snd (exec stubs (ReqInit ''adc'' None None ''k1'') fresh))
     (run [(stubs, ReqDial ''proj:region:inst'' ''{a}''), (stubs, ReqInitClient custom ''k2'')]
        (snd (exec stubs (ReqInit ''adc'' None None ''k1'') fresh)))) \<and>
   lookup ''k1''
     (run [(stubs, ReqDial ''proj:region:inst'' ''{a}''), (stubs, ReqInitClient custom ''k2'')]
        (snd (exec stubs (ReqInit ''adc'' None None ''k1'') fresh))) =
     Some (built stubs ''adc'' None None)"
proof -
  have i: "installs stubs (ReqInit ''adc'' None None ''k1'') = Some (''k1'', built stubs ''adc'' None None)"
    by simp
  have r: "fst (exec stubs (ReqInit ''adc'' None None ''k1'') fresh) = Ret None"
    by (simp add: func_defs stmt_defs fresh_def)
  have w: "EvWrite ''k1'' \<notin> set (emitted (snd (exec stubs (ReqInit ''adc'' None None ''k1'') fresh))
     (run [(stubs, ReqDial ''proj:region:inst'' ''{a}''), (stubs, ReqInitClient custom ''k2'')]
        (snd (exec stubs (ReqInit ''adc'' None None ''k1'') fresh))))"
    by (simp add: func_defs stmt_defs fresh_def stubs_def emitted_def)
  show ?thesis
    using i r w
      installed_key_stays [OF i r,
        of "[(stubs, ReqDial ''proj:region:inst'' ''{a}''), (stubs, ReqInitClient custom ''k2'')]"]
    by auto
qed

subsection \<open>C5: a failed exchange is not cached\<close>

text \<open>
  C5: when the credential \<open>k\<close> does not parse, \<open>InitFromJson\<close> returns the parser's error
  as it is and leaves the map and the mutex as they were, so a key that was not found
  is still not found. A later \<open>Dial\<close> for \<open>k\<close> asks the provider again, and its outcome is
  that of the new attempt: with a provider that now accepts \<open>k\<close> it installs the client
  and dials with it; with one that rejects it, it returns that attempt's wrapped error.
\<close>

theorem failed_exchange_not_cached:
  assumes "JWTConfigFromJSON env k sqlservice_admin_scope = Inl e"
  shows "fst (InitFromJson env ctx k s) = Ret (Some e) \<and>
         dc_c (snd (InitFromJson env ctx k s)) = dc_c s \<and>
         dc_locked (snd (InitFromJson env ctx k s)) = dc_locked s \<and>
         (lookup k s = None \<longrightarrow> lookup k (snd (InitFromJson env ctx k s)) = None) \<and>
         (lookup k s = None \<and> \<not> dc_locked s \<longrightarrow>
            EvJWTConfigFromJSON k \<in> set (emitted (snd (InitFromJson env ctx k s))
                (snd (Dial env2 i k (snd (InitFromJson env ctx k s))))) \<and>
            (\<forall>cfg. JWTConfigFromJSON env2 k sqlservice_admin_scope = Inr cfg \<longrightarrow>
               fst (Dial env2 i k (snd (InitFromJson env ctx k s))) =
                 Ret (ClientDial env2 (built env2 (ConfigClient env2 cfg (Background env2)) None None) i) \<and>
               lookup k (snd (Dial env2 i k (snd (InitFromJson env ctx k s)))) =
                 Some (built env2 (ConfigClient env2 cfg (Background env2)) None None)) \<and>
            (\<forall>e2. JWTConfigFromJSON env2 k sqlservice_admin_scope = Inl e2 \<longrightarrow>
               fst (Dial env2 i k (snd (InitFromJson env ctx k s))) = Ret (Inl (dial_wrap e2)) \<and>
               lookup k (snd (Dial env2 i k (snd (InitFromJson env ctx k s)))) = None))"
  using assms
  by (auto simp: func_defs stmt_defs emitted_def built_def port_def sql_api_base_def
           split: option.splits sum.splits if_splits)

theorem failed_exchange_not_cached_witness:
  "JWTConfigFromJSON stubs ''bad-json'' sqlservice_admin_scope = Inl (Err ''invalid character'') \<and>
   fst (InitFromJson stubs () ''bad-json'' (fresh :: stub_state)) = Ret (Some (Err ''invalid character'')) \<and>
   lookup ''bad-json'' (snd (InitFromJson stubs () ''bad-json'' (fresh :: stub_state))) = None \<and>
   fst (Dial stubs_lenient ''proj:region:inst'' ''bad-json''
          (snd (InitFromJson stubs () ''bad-json'' (fresh :: stub_state)))) = Ret (Inr ''proj:region:inst'')"
proof -
  have h: "JWTConfigFromJSON stubs ''bad-json'' sqlservice_admin_scope = Inl (Err ''invalid character'')"
    by (simp add: stubs_def)
  have a: "lookup ''bad-json'' (fresh :: stub_state) = None \<and> \<not> dc_locked (fresh :: stub_state)"
    by (simp add: fresh_def lookup_def)
  have l: "JWTConfigFromJSON stubs_lenient ''bad-json'' sqlservice_admin_scope = Inr ''bad-json''"
    by (simp add: stubs_lenient_def)
  have d: "ClientDial stubs_lenient c ''proj:region:inst'' = Inr ''proj:region:inst''" for c
    by (simp add: stubs_lenient_def stubs_def)
  show ?thesis
    using h a l
      failed_exchange_not_cached [OF h, of "()" "fresh :: stub_state" stubs_lenient "''proj:region:inst''"]
    by (simp add: d)
qed

subsection \<open>C6: the two errors of \<open>Dial\<close>\<close>

text \<open>
  C6: \<open>Dial\<close> returns an error in exactly two ways, and never in both at once. Either
  the key was not found and the identity exchange failed, and the error is the exchange
  error wrapped in the text that the default initialisation failed and that
  \<open>proxy.Init\<close> should be called explicitly; or the resolved client's own \<open>Dial\<close> failed,
  and the error is that one, unchanged.
\<close>

theorem Dial_error_shapes:
  assumes "\<not> dc_locked s"
  shows "(fst (Dial env i k s) = Ret (Inl e) \<longleftrightarrow>
            (lookup k s = None \<and>
             (\<exists>err. JWTConfigFromJSON env k sqlservice_admin_scope = Inl err \<and> e = dial_wrap err)) \<or>
            (\<exists>cl. lookup k (snd (Dial env i k s)) = Some cl \<and> ClientDial env cl i = Inl e)) \<and>
         \<not> ((lookup k s = None \<and>
             (\<exists>err. JWTConfigFromJSON env k sqlservice_admin_scope = Inl err \<and> e = dial_wrap err)) \<and>
            (\<exists>cl. lookup k (snd (Dial env i k s)) = Some cl \<and> ClientDial env cl i = Inl e)) \<and>
         (\<forall>err. Error (dial_wrap err) =
            ''default proxy initialization failed; consider calling proxy.Init explicitly: '' @ Error err)"
  using assms
  by (auto simp: func_defs stmt_defs dial_wrap_def
           split: option.splits sum.splits if_splits)

theorem Dial_error_shapes_witness:
  "\<not> dc_locked (fresh :: stub_state) \<and>
   fst (Dial stubs ''down'' ''{a}'' (fresh :: stub_state)) = Ret (Inl (Err ''refused'')) \<and>
   (\<exists>cl. lookup ''{a}'' (snd (Dial stubs ''down'' ''{a}'' (fresh :: stub_state))) = Some cl \<and>
         ClientDial stubs cl ''down'' = Inl (Err ''refused''))"
proof -
  have h: "\<not> dc_locked (fresh :: stub_state)"
    by (simp add: fresh_def)
  have d: "fst (Dial stubs ''down'' ''{a}'' (fresh :: stub_state)) = Ret (Inl (Err ''refused''))"
    by (simp add: func_defs stmt_defs stubs_def fresh_def)
  have j: "JWTConfigFromJSON stubs ''{a}'' sqlservice_admin_scope = Inr ''{a}''"
    by (simp add: stubs_def)
  show ?thesis
    using h d j Dial_error_shapes [OF h, of stubs "''down''" "''{a}''" "Err ''refused''"]
    by simp
qed

subsection \<open>C7: the client \<open>Init\<close> installs\<close>

text \<open>
  C7: \<open>Init\<close> installs under the given key a client whose port is the constant \<open>port\<close>
  (3307), whose certificate source is built by \<open>NewCertSource\<close> for the fixed endpoint
  with the given auth transport, and whose connection set and dialer are the ones
  passed in.
\<close>

theorem Init_installs_built_client:
  assumes "\<not> dc_locked s"
  shows "fst (Init env auth connset dialer k s) = Ret () \<and>
         lookup k (snd (Init env auth connset dialer k s)) =
           Some \<lparr>Port = port, Certs = NewCertSource env sql_api_base auth True,
                 Conns = connset, Dialer = dialer\<rparr> \<and>
         port = 3307 \<and>
         sql_api_base = ''https://www.googleapis.com/sql/v1beta4/''"
  using assms
  by (auto simp: func_defs stmt_defs port_def sql_api_base_def split: option.splits)

theorem Init_installs_built_client_witness:
  "\<not> dc_locked (fresh :: stub_state) \<and>
   lookup ''k1'' (snd (Init stubs ''adc'' (Some 7) None ''k1'' (fresh :: stub_state))) =
     Some \<lparr>Port = 3307, Certs = (''https://www.googleapis.com/sql/v1beta4/'', ''adc'', True),
           Conns = Some 7, Dialer = None\<rparr>"
proof -
  have h: "\<not> dc_locked (fresh :: stub_state)"
    by (simp add: fresh_def)
  show ?thesis
    using h Init_installs_built_client [OF h, of stubs "''adc''" "Some 7" None "''k1''"]
    by (simp add: stubs_def)
qed

subsection \<open>C8: \<open>Dial\<close> for an installed key\<close>

text \<open>
  C8: when the key is installed, \<open>Dial\<close> locks, reads the entry, unlocks and calls the
  installed client's \<open>Dial\<close> with the instance, whose result it returns. It makes no
  identity exchange and leaves the entries as they are.
\<close>

theorem Dial_installed_delegates:
  assumes "lookup k s = Some cl" and "\<not> dc_locked s"
  shows "fst (Dial env i k s) = Ret (ClientDial env cl i) \<and>
         emitted s (snd (Dial env i k s)) = [EvLock, EvRead k, EvUnlock, EvClientDial i] \<and>
         entries (snd (Dial env i k s)) = entries s"
  using assms
  by (auto simp: func_defs stmt_defs emitted_def entries_def split: option.splits)

theorem Dial_installed_delegates_witness:
  "lookup ''k1'' (snd (InitClient custom ''k1'' allocated)) = Some custom \<and>
   \<not> dc_locked (snd (InitClient custom ''k1'' allocated)) \<and>
   fst (Dial stubs ''any'' ''k1'' (snd (InitClient custom ''k1'' allocated))) = Ret (Inr ''any'') \<and>
   emitted (snd (InitClient custom ''k1'' allocated))
     (snd (Dial stubs ''any'' ''k1'' (snd (InitClient custom ''k1'' allocated)))) =
     [EvLock, EvRead ''k1'', EvUnlock, EvClientDial ''any'']"
proof -
  have a: "lookup ''k1'' (snd (InitClient custom ''k1'' allocated)) = Some custom"
    by (simp add: InitClient_def stmt_defs allocated_def)
  have b: "\<not> dc_locked (snd (InitClient custom ''k1'' allocated))"
    by (simp add: InitClient_def stmt_defs allocated_def)
  have d: "ClientDial stubs custom ''any'' = Inr ''any''"
    by (simp add: stubs_def)
  show ?thesis
    using a b Dial_installed_delegates [OF a b, of stubs "''any''"]
    by (simp add: d)
qed

subsection \<open>C9: the registry only grows\<close>

text \<open>
  C9: no call removes a key. Each of the five functions leaves the entries of the map
  as they are or assigns exactly one entry, so the set of installed keys never shrinks,
  over one call and over any run. (Allocating the nil map changes no entry.)
\<close>

theorem registry_only_grows:
  "dom (entries s) \<subseteq> dom (entries (snd (exec env r s))) \<and>
   (entries (snd (exec env r s)) = entries s \<or>
    (\<exists>k v. entries (snd (exec env r s)) = (entries s)(k \<mapsto> v))) \<and>
   dom (entries s) \<subseteq> dom (entries (run rs s))"
proof -
  have step: "entries (snd (exec env r s)) = entries s \<or>
      (\<exists>k v. entries (snd (exec env r s)) = (entries s)(k \<mapsto> v))"
    by (rule exec_entries)
  have "dom (entries s) \<subseteq> dom (entries (snd (exec env r s)))"
    by (rule exec_dom)
  moreover have "dom (entries s) \<subseteq> dom (entries (run rs s))"
    by (rule run_dom)
  ultimately show ?thesis using step by blast
qed

subsection \<open>C10: the second lookup of \<open>Dial\<close>\<close>

text \<open>
  C10: when \<open>Dial\<close> does not find the key and \<open>InitFromJson\<close> succeeds (the credential
  parses), the entry \<open>Dial\<close> reads afterwards under the same key is the client that
  \<open>InitFromJson\<close> installed, so \<open>Dial\<close> returns what that client's \<open>Dial\<close> returns and
  does not dereference a nil pointer.
\<close>

theorem Dial_relookup_finds_client:
  assumes "\<not> dc_locked s" and "lookup k s = None"
    and "JWTConfigFromJSON env k sqlservice_admin_scope = Inr cfg"
  shows "fst (InitFromJson env (Background env) k s) = Ret None \<and>
         lookup k (snd (Dial env i k s)) =
           Some (built env (ConfigClient env cfg (Background env)) None None) \<and>
         fst (Dial env i k s) =
           Ret (ClientDial env (built env (ConfigClient env cfg (Background env)) None None) i)"
  using assms
  by (auto simp: func_defs stmt_defs built_def port_def sql_api_base_def
           split: option.splits sum.splits if_splits)

theorem Dial_relookup_finds_client_witness:
  "\<not> dc_locked (fresh :: stub_state) \<and> lookup ''{a}'' (fresh :: stub_state) = None \<and>
   JWTConfigFromJSON stubs ''{a}'' sqlservice_admin_scope = Inr ''{a}'' \<and>
   lookup ''{a}'' (snd (Dial stubs ''proj:region:inst'' ''{a}'' (fresh :: stub_state))) =
     Some (built stubs ''{a}'' None None) \<and>
   fst (Dial stubs ''proj:region:inst'' ''{a}'' (fresh :: stub_state)) = Ret (Inr ''proj:region:inst'')"
proof -
  have h: "\<not> dc_locked (fresh :: stub_state)"
    by (simp add: fresh_def)
  have n: "lookup ''{a}'' (fresh :: stub_state) = None"
    by (simp add: fresh_def lookup_def)
  have j: "JWTConfigFromJSON stubs ''{a}'' sqlservice_admin_scope = Inr ''{a}''"
    by (simp add: stubs_def)
  have c: "ConfigClient stubs ''{a}'' () = ''{a}''"
    by (simp add: stubs_def)
  have d: "ClientDial stubs cl ''proj:region:inst'' = Inr ''proj:region:inst''" for cl
    by (simp add: stubs_def)
  show ?thesis
    using h n j Dial_relookup_finds_client [OF h n j, of "''proj:region:inst''"]
    by (simp add: c d)
qed

end
